theory Spec2Isabelle
  imports Main "HOL-Library.Word"
begin

unbundle bit_operations_syntax

section \<open>Exceptions (app/exceptions.py)\<close>

text \<open>
  The exception classes of \<^verbatim>\<open>app/exceptions.py\<close> and the built-in ones the code raises, as
  values.  Every constructor stands for a subclass of Python's \<^verbatim>\<open>Exception\<close>.  The
  \<^verbatim>\<open>detail\<close> of an application exception is a text; where the source builds it from the
  message of a library exception (the JSON decoder's, the schema validator's) the model keeps
  the kind of that exception instead of the library's wording.
\<close>

datatype validation_error =
    NotAMapping                  \<comment> \<open>\<^verbatim>\<open>TypeError\<close>: the argument after \<^verbatim>\<open>**\<close> is no dictionary\<close>
  | FieldErrors "string list"    \<comment> \<open>\<^verbatim>\<open>ValidationError\<close>, with the fields in error\<close>

datatype detail =
    Detail string
  | JSONParseDetail              \<comment> \<open>\<^verbatim>\<open>f"JSON parse error: {str(e)}"\<close>\<close>
  | ValidationDetail validation_error \<comment> \<open>\<^verbatim>\<open>f"Validation error: {str(validation_error)}"\<close>\<close>
  | ValidationText validation_error   \<comment> \<open>\<^verbatim>\<open>str(e)\<close> of a validation error\<close>

datatype exn =
    ValueError string
  | PyException string                          \<comment> \<open>any other \<^verbatim>\<open>Exception(msg)\<close>\<close>
  | InvalidFileTypeError string                 \<comment> \<open>\<^verbatim>\<open>file_type\<close>\<close>
  | OcrError string "detail option"
  | AiServiceError string "detail option"
  | CacheError string
  | FileProcessingError string "detail option"
  | CircuitBreakerOpenError string              \<comment> \<open>\<^verbatim>\<open>service_name\<close>\<close>

text \<open>\<^verbatim>\<open>str(e)\<close>: the message handed to \<^verbatim>\<open>Exception.__init__\<close>.\<close>

fun py_str :: "exn \<Rightarrow> string" where
  "py_str (ValueError m) = m"
| "py_str (PyException m) = m"
| "py_str (InvalidFileTypeError t) = ''Invalid file type: '' @ t"
| "py_str (OcrError m d) = m"
| "py_str (AiServiceError m d) = m"
| "py_str (CacheError m) = m"
| "py_str (FileProcessingError m d) = m"
| "py_str (CircuitBreakerOpenError n) = n @ '' is temporarily unavailable''"

text \<open>\<^verbatim>\<open>isinstance(e, AiServiceError)\<close>: \<^verbatim>\<open>CircuitBreakerOpenError\<close> derives from it.\<close>

fun is_AiServiceError :: "exn \<Rightarrow> bool" where
  "is_AiServiceError (AiServiceError m d) = True"
| "is_AiServiceError (CircuitBreakerOpenError n) = True"
| "is_AiServiceError e = False"

text \<open>\<^verbatim>\<open>isinstance(e, Exception)\<close>: every exception of the model is one.\<close>

definition is_Exception :: "exn \<Rightarrow> bool" where
  "is_Exception e = True"

section \<open>The circuit breaker (app/services/ai\_service.py, class CircuitBreaker)\<close>

datatype cb_state = CLOSED | OPEN | HALF_OPEN

text \<open>
  Time stamps (\<^verbatim>\<open>datetime.now()\<close>) are integers counting microseconds, the resolution of
  \<^verbatim>\<open>datetime\<close>; \<^verbatim>\<open>timeout\<close> is held in seconds, as in the source.
\<close>

record CircuitBreaker =
  failure_threshold :: int
  timeout :: int
  expected_exception :: "exn \<Rightarrow> bool"
  failure_count :: int
  last_failure_time :: "int option"
  state :: cb_state

definition timedelta_seconds :: "int \<Rightarrow> int" where
  "timedelta_seconds n = n * 1000000"

text \<open>\<^verbatim>\<open>CircuitBreaker.__init__\<close>.\<close>

definition CircuitBreaker_init :: "int \<Rightarrow> int \<Rightarrow> (exn \<Rightarrow> bool) \<Rightarrow> CircuitBreaker" where
  "CircuitBreaker_init threshold tmo expected =
     \<lparr> failure_threshold = threshold, timeout = tmo, expected_exception = expected,
       failure_count = 0, last_failure_time = None, state = CLOSED \<rparr>"

text \<open>\<^verbatim>\<open>_should_attempt_reset\<close>, with the clock's reading as an argument.\<close>

definition should_attempt_reset :: "CircuitBreaker \<Rightarrow> int \<Rightarrow> bool" where
  "should_attempt_reset cb now =
     (case last_failure_time cb of
        None \<Rightarrow> True
      | Some t \<Rightarrow> now - t > timedelta_seconds (timeout cb))"

text \<open>\<^verbatim>\<open>_on_success\<close>.\<close>

definition on_success :: "CircuitBreaker \<Rightarrow> CircuitBreaker" where
  "on_success cb = cb\<lparr>failure_count := 0, state := CLOSED\<rparr>"

text \<open>\<^verbatim>\<open>_on_failure\<close>, with the clock's reading as an argument.\<close>

definition on_failure :: "CircuitBreaker \<Rightarrow> int \<Rightarrow> CircuitBreaker" where
  "on_failure cb now =
     (let cb1 = cb\<lparr>failure_count := failure_count cb + 1, last_failure_time := Some now\<rparr>
      in if failure_count cb1 \<ge> failure_threshold cb1 then cb1\<lparr>state := OPEN\<rparr> else cb1)"

text \<open>
  The first statement of \<^verbatim>\<open>call\<close> (lines 34--40): an open breaker either moves to
  \<^verbatim>\<open>HALF_OPEN\<close> or raises \<^verbatim>\<open>CircuitBreakerOpenError\<close>.
\<close>

definition call_gate :: "CircuitBreaker \<Rightarrow> int \<Rightarrow> exn + CircuitBreaker" where
  "call_gate cb now =
     (if state cb = OPEN then
        (if should_attempt_reset cb now then Inr (cb\<lparr>state := HALF_OPEN\<rparr>)
         else Inl (CircuitBreakerOpenError ''AI Service''))
      else Inr cb)"

text \<open>
  \<^verbatim>\<open>call\<close>.  The wrapped function runs on a state of its own (\<open>'s\<close>) and returns its
  exception or its result; \<open>now\<close> is the clock when the gate is evaluated and \<open>later\<close> the
  clock when a failure is recorded.  An exception that \<^verbatim>\<open>expected_exception\<close> does not
  match passes through with neither \<^verbatim>\<open>_on_success\<close> nor \<^verbatim>\<open>_on_failure\<close>.
\<close>

definition call ::
  "CircuitBreaker \<Rightarrow> int \<Rightarrow> int \<Rightarrow> ('s \<Rightarrow> (exn + 'a) \<times> 's) \<Rightarrow> 's
     \<Rightarrow> (exn + 'a) \<times> CircuitBreaker \<times> 's" where
  "call cb now later func s =
     (case call_gate cb now of
        Inl e \<Rightarrow> (Inl e, cb, s)
      | Inr cb1 \<Rightarrow>
          (case func s of
             (Inr result, s') \<Rightarrow> (Inr result, on_success cb1, s')
           | (Inl e, s') \<Rightarrow>
               if expected_exception cb1 e then (Inl e, on_failure cb1 later, s')
               else (Inl e, cb1, s')))"

text \<open>
  The breaker states a program can reach: a fresh breaker, and the breaker after any call,
  whatever the wrapped function does and whatever the clock shows.
\<close>

inductive reachable :: "CircuitBreaker \<Rightarrow> bool" where
  reachable_init: "reachable (CircuitBreaker_init threshold tmo expected)"
| reachable_call:
    "reachable cb \<Longrightarrow> call cb now later (\<lambda>u::unit. (r :: exn + unit, u)) () = (r', cb', u')
       \<Longrightarrow> reachable cb'"

section \<open>Python strings\<close>

text \<open>
  Text is a list of characters with code points 0 to 255.  \<^verbatim>\<open>str.isspace\<close>,
  \<^verbatim>\<open>str.strip\<close> and \<^verbatim>\<open>str.lower\<close> are Python's, restricted to these code points.
\<close>

definition is_space :: "char \<Rightarrow> bool" where
  "is_space c =
     (let n = (of_char c :: nat)
      in (9 \<le> n \<and> n \<le> 13) \<or> (28 \<le> n \<and> n \<le> 32) \<or> n = 133 \<or> n = 160)"

definition strip :: "string \<Rightarrow> string" where
  "strip s = rev (dropWhile is_space (rev (dropWhile is_space s)))"

definition lower_char :: "char \<Rightarrow> char" where
  "lower_char c =
     (let n = (of_char c :: nat)
      in if (65 \<le> n \<and> n \<le> 90) \<or> (192 \<le> n \<and> n \<le> 222 \<and> n \<noteq> 215)
         then char_of (n + 32) else c)"

definition lower :: "string \<Rightarrow> string" where
  "lower s = map lower_char s"

text \<open>\<^verbatim>\<open>s.startswith(p)\<close> and the substring test \<^verbatim>\<open>sub in s\<close>.\<close>

fun startswith :: "string \<Rightarrow> string \<Rightarrow> bool" where
  "startswith s [] = True"
| "startswith [] (p # ps) = False"
| "startswith (c # cs) (p # ps) = (c = p \<and> startswith cs ps)"

fun py_in :: "string \<Rightarrow> string \<Rightarrow> bool" where
  "py_in sub [] = (sub = [])"
| "py_in sub (c # cs) = (startswith (c # cs) sub \<or> py_in sub cs)"

section \<open>The AI service (app/services/ai\_service.py, class AIService)\<close>

subsection \<open>Failure classification\<close>

definition transient_indicators :: "string list" where
  "transient_indicators =
     [''503'', ''502'', ''504'', ''500'', ''429'', ''timeout'', ''connection'', ''network'',
      ''quota exceeded'']"

text \<open>\<^verbatim>\<open>_is_transient_error\<close>.\<close>

definition is_transient_error :: "exn \<Rightarrow> bool" where
  "is_transient_error error =
     (let error_str = lower (py_str error)
      in list_ex (\<lambda>indicator. py_in indicator error_str) transient_indicators)"

text \<open>
  The wording of the specification: a text contains an indicator case-insensitively when
  one of its contiguous pieces equals the indicator up to the case of the letters.
\<close>

definition contains_ci :: "string \<Rightarrow> string \<Rightarrow> bool" where
  "contains_ci ind s = (\<exists>pre mid post. s = pre @ mid @ post \<and> lower mid = lower ind)"

subsection \<open>The call to the model and its retries\<close>

text \<open>
  The AI collaborator \<^verbatim>\<open>self.model.generate_content\<close> is an oracle \<open>gen\<close>: the outcome
  of its \<open>n\<close>-th call (counted from 0) on a prompt is an exception or the response's
  \<^verbatim>\<open>text\<close> (a response without text is the empty text).  The state threaded through the
  calls is the number of calls made so far.
\<close>

type_synonym genai = "nat \<Rightarrow> string \<Rightarrow> exn + string"

text \<open>The body of \<^verbatim>\<open>_call_gemini_api\<close>: one attempt.\<close>

definition call_gemini_api_body :: "genai \<Rightarrow> string \<Rightarrow> nat \<Rightarrow> (exn + string) \<times> nat" where
  "call_gemini_api_body gen prompt n =
     (let tried =
        (case gen n prompt of
           Inl e \<Rightarrow> Inl e
         | Inr text \<Rightarrow>
             if text = [] then Inl (AiServiceError ''Empty response from Gemini API'' None)
             else Inr (strip text))
      in case tried of
           Inr text \<Rightarrow> (Inr text, Suc n)
         | Inl e \<Rightarrow>
             if is_transient_error e
             then (Inl (AiServiceError (''Transient error from Gemini API: '' @ py_str e) None), Suc n)
             else (Inl (AiServiceError (''Permanent error from Gemini API: '' @ py_str e) None), Suc n))"

text \<open>
  The decorator \<^verbatim>\<open>@retry(stop=stop_after_attempt(3), wait=..., retry=retry_if_exception_type((AiServiceError,)), reraise=True)\<close>:
  the function is attempted; an exception that is no \<^verbatim>\<open>AiServiceError\<close> is raised at once,
  an \<^verbatim>\<open>AiServiceError\<close> is raised when the attempt was the third and leads to another
  attempt otherwise.  The waits between the attempts change no state of the model and are
  left out.
\<close>

function retry ::
  "nat \<Rightarrow> ('s \<Rightarrow> (exn + 'a) \<times> 's) \<Rightarrow> 's \<Rightarrow> (exn + 'a) \<times> 's" where
  "retry attempt_number fn s =
     (case fn s of
        (Inr result, s') \<Rightarrow> (Inr result, s')
      | (Inl e, s') \<Rightarrow>
          if \<not> is_AiServiceError e then (Inl e, s')
          else if attempt_number \<ge> 3 then (Inl e, s')
          else retry (attempt_number + 1) fn s')"
  by pat_completeness auto
termination
  by (relation "measure (\<lambda>(attempt_number, fn, s). 3 - attempt_number)") auto

declare retry.simps [simp del]

text \<open>\<^verbatim>\<open>_call_gemini_api\<close> as decorated.\<close>

definition call_gemini_api :: "genai \<Rightarrow> string \<Rightarrow> nat \<Rightarrow> (exn + string) \<times> nat" where
  "call_gemini_api gen prompt n = retry 1 (call_gemini_api_body gen prompt) n"

subsection \<open>Scenarios\<close>

text \<open>
  Running a breaker through a list of calls, each given by the two clock readings and the
  outcome of the wrapped function.
\<close>

fun run_calls :: "CircuitBreaker \<Rightarrow> (int \<times> int \<times> (exn + unit)) list \<Rightarrow> CircuitBreaker" where
  "run_calls cb [] = cb"
| "run_calls cb ((now, later, r) # cs) =
     run_calls (fst (snd (call cb now later (\<lambda>u::unit. (r, u)) ()))) cs"

text \<open>
  The breaker of \<^verbatim>\<open>tests/test_error_handling.py\<close>
  (\<^verbatim>\<open>CircuitBreaker(failure_threshold=2, timeout=60)\<close>) with a given count, time of the last
  failure and state, and two wrapped functions that count their invocations: one always
  raises, one always returns.
\<close>

definition test_breaker :: "int \<Rightarrow> int option \<Rightarrow> cb_state \<Rightarrow> CircuitBreaker" where
  "test_breaker n t st =
     \<lparr> failure_threshold = 2, timeout = 60, expected_exception = is_Exception,
       failure_count = n, last_failure_time = t, state = st \<rparr>"



text \<open>
  An attempt on the AI collaborator fails when the collaborator raises or answers with no
  text.
\<close>

definition attempt_fails :: "genai \<Rightarrow> string \<Rightarrow> nat \<Rightarrow> bool" where
  "attempt_fails gen prompt n = (case gen n prompt of Inl e \<Rightarrow> True | Inr text \<Rightarrow> text = [])"

text \<open>The invariant of the breaker's states.\<close>

definition breaker_inv :: "CircuitBreaker \<Rightarrow> bool" where
  "breaker_inv cb =
     (0 \<le> failure_count cb \<and>
      (state cb = CLOSED \<or>
       (last_failure_time cb \<noteq> None \<and> failure_threshold cb \<le> failure_count cb)))"

section \<open>The content fingerprint (app/utils.py)\<close>

subsection \<open>SHA-256 (\<^verbatim>\<open>hashlib.sha256\<close>)\<close>

text \<open>
  The digest of the standard (FIPS 180-4) on a sequence of bytes: the message is padded to
  a multiple of 64 bytes, cut into blocks of sixteen big-endian 32-bit words, and each block
  is compressed into the eight words of the hash value.
\<close>

type_synonym bytes = "8 word list"





















subsection \<open>\<^verbatim>\<open>calculate_file_hash\<close>\<close>



section \<open>Python values and JSON (\<^verbatim>\<open>json.loads\<close>)\<close>

text \<open>
  The values the JSON decoder produces and the validated models hold.  A finite float is
  kept as the decimal it was written as, \<open>Dec m e\<close> standing for \<open>m \<times> 10\<^sup>e\<close> with a
  mantissa that is 0 or no multiple of 10 (\<open>norm_dec\<close> brings a decimal into this form);
  binary rounding is not modelled.  A dictionary is the list of its items in insertion
  order, with distinct keys.
\<close>

datatype pyfloat = Dec int int | PosInf | NegInf | NaN

function norm_dec :: "int \<Rightarrow> int \<Rightarrow> pyfloat" where
  "norm_dec m e =
     (if m = 0 then Dec 0 0
      else if m mod 10 = 0 then norm_dec (m div 10) (e + 1)
      else Dec m e)"
  by pat_completeness auto
termination
  by (relation "measure (\<lambda>(m, e). nat \<bar>m\<bar>)") auto

declare norm_dec.simps [simp del]

datatype date = Date int int int

datatype pyval =
    PNone
  | PBool bool
  | PInt int
  | PFloat pyfloat
  | PStr string
  | PList "pyval list"
  | PDict "(string \<times> pyval) list"
  | PDate date

text \<open>\<^verbatim>\<open>d[k] = v\<close>: a key already present keeps its place and takes the new value.\<close>

fun dict_set :: "(string \<times> pyval) list \<Rightarrow> string \<Rightarrow> pyval \<Rightarrow> (string \<times> pyval) list" where
  "dict_set [] k v = [(k, v)]"
| "dict_set ((k', v') # d) k v = (if k' = k then (k, v) # d else (k', v') # dict_set d k v)"


subsection \<open>The decoder\<close>

definition is_json_ws :: "char \<Rightarrow> bool" where
  "is_json_ws c = (c = CHR '' '' \<or> c = CHR 0x09 \<or> c = CHR 0x0A \<or> c = CHR 0x0D)"

definition skip_ws :: "string \<Rightarrow> string" where
  "skip_ws s = dropWhile is_json_ws s"

definition is_digit :: "char \<Rightarrow> bool" where
  "is_digit c = (let n = (of_char c :: nat) in 48 \<le> n \<and> n \<le> 57)"

definition digits_value :: "string \<Rightarrow> int" where
  "digits_value ds = foldl (\<lambda>a c. 10 * a + (int (of_char c) - 48)) 0 ds"

text \<open>
  A number, by the decoder's pattern \<^verbatim>\<open>(-?(?:0|[1-9]\d*))(\.\d+)?([eE][-+]?\d+)?\<close>: an
  \<^verbatim>\<open>int\<close> when it has neither fraction nor exponent, a \<^verbatim>\<open>float\<close> otherwise.
\<close>

definition parse_number :: "string \<Rightarrow> (pyval \<times> string) option" where
  "parse_number s =
     (let neg = startswith s ''-'';
          s1 = (if neg then tl s else s);
          ds = takeWhile is_digit s1;
          ip = (if startswith ds ''0'' then ''0'' else ds);
          s2 = drop (length ip) s1;
          fd = (if startswith s2 ''.'' then takeWhile is_digit (tl s2) else []);
          s3 = (if fd = [] then s2 else drop (Suc (length fd)) s2);
          has_e = (startswith s3 ''e'' \<or> startswith s3 ''E'');
          s4 = (if has_e then tl s3 else s3);
          eneg = (has_e \<and> startswith s4 ''-'');
          s5 = (if has_e \<and> (startswith s4 ''-'' \<or> startswith s4 ''+'') then tl s4 else s4);
          ed = (if has_e then takeWhile is_digit s5 else []);
          s6 = (if ed = [] then s3 else drop (length ed) s5);
          sgn = (if neg then - 1 else 1)
      in if ip = [] then None
         else if fd = [] \<and> ed = [] then Some (PInt (sgn * digits_value ip), s6)
         else Some (PFloat (norm_dec (sgn * digits_value (ip @ fd))
                                     ((if eneg then - digits_value ed else digits_value ed)
                                        - int (length fd))), s6))"

definition hex_value :: "char \<Rightarrow> nat option" where
  "hex_value c =
     (let n = (of_char c :: nat)
      in if 48 \<le> n \<and> n \<le> 57 then Some (n - 48)
         else if 65 \<le> n \<and> n \<le> 70 then Some (n - 55)
         else if 97 \<le> n \<and> n \<le> 102 then Some (n - 87)
         else None)"

definition hex4 :: "string \<Rightarrow> nat option" where
  "hex4 s =
     (case map hex_value (take 4 s) of
        [Some a, Some b, Some c, Some d] \<Rightarrow> Some (((a * 16 + b) * 16 + c) * 16 + d)
      | _ \<Rightarrow> None)"

definition unescape :: "char \<Rightarrow> char option" where
  "unescape e =
     (if e = CHR 0x22 then Some (CHR 0x22)
      else if e = CHR 0x5C then Some (CHR 0x5C)
      else if e = CHR ''/'' then Some (CHR ''/'')
      else if e = CHR ''b'' then Some (CHR 0x08)
      else if e = CHR ''f'' then Some (CHR 0x0C)
      else if e = CHR ''n'' then Some (CHR 0x0A)
      else if e = CHR ''r'' then Some (CHR 0x0D)
      else if e = CHR ''t'' then Some (CHR 0x09)
      else None)"

text \<open>
  The characters of a string after its opening quote, up to the closing one.  A control
  character is refused (the decoder is strict).  An escape \<^verbatim>\<open>\uXXXX\<close> of a code point
  above 255 lies outside the texts of the model and is refused as well.
\<close>

fun parse_string :: "string \<Rightarrow> (string \<times> string) option" where
  "parse_string [] = None"
| "parse_string (c # cs) =
     (if c = CHR 0x22 then Some ([], cs)
      else if c = CHR 0x5C then
        (case cs of
           [] \<Rightarrow> None
         | e # r \<Rightarrow>
             if e = CHR ''u'' then
               (case hex4 r of
                  None \<Rightarrow> None
                | Some code \<Rightarrow>
                    if code < 256 then
                      (case parse_string (drop 4 r) of
                         None \<Rightarrow> None
                       | Some (s, rest) \<Rightarrow> Some (char_of code # s, rest))
                    else None)
             else
               (case unescape e of
                  None \<Rightarrow> None
                | Some ch \<Rightarrow>
                    (case parse_string r of
                       None \<Rightarrow> None
                     | Some (s, rest) \<Rightarrow> Some (ch # s, rest))))
      else if (of_char c :: nat) < 32 then None
      else (case parse_string cs of
              None \<Rightarrow> None
            | Some (s, rest) \<Rightarrow> Some (c # s, rest)))"

text \<open>
  A value, the elements of an array after \<^verbatim>\<open>[\<close> and the members of an object after
  \<^verbatim>\<open>{\<close>.  The first argument bounds the depth of the recursion; \<open>json_loads\<close> starts it
  with the length of the text, which no nesting exceeds.
\<close>

fun parse_value :: "nat \<Rightarrow> string \<Rightarrow> (pyval \<times> string) option"
  and parse_array :: "nat \<Rightarrow> pyval list \<Rightarrow> string \<Rightarrow> (pyval \<times> string) option"
  and parse_object :: "nat \<Rightarrow> (string \<times> pyval) list \<Rightarrow> string \<Rightarrow> (pyval \<times> string) option"
where
  "parse_value 0 s = None"
| "parse_value (Suc n) s =
     (if startswith s [CHR 0x22] then
        (case parse_string (tl s) of None \<Rightarrow> None | Some (str, rest) \<Rightarrow> Some (PStr str, rest))
      else if startswith s ''{'' then
        (let s1 = skip_ws (tl s)
         in if startswith s1 ''}'' then Some (PDict [], tl s1) else parse_object n [] s1)
      else if startswith s ''['' then
        (let s1 = skip_ws (tl s)
         in if startswith s1 '']'' then Some (PList [], tl s1) else parse_array n [] s1)
      else if startswith s ''null'' then Some (PNone, drop 4 s)
      else if startswith s ''true'' then Some (PBool True, drop 4 s)
      else if startswith s ''false'' then Some (PBool False, drop 5 s)
      else
        (case parse_number s of
           Some r \<Rightarrow> Some r
         | None \<Rightarrow>
             if startswith s ''NaN'' then Some (PFloat NaN, drop 3 s)
             else if startswith s ''Infinity'' then Some (PFloat PosInf, drop 8 s)
             else if startswith s ''-Infinity'' then Some (PFloat NegInf, drop 9 s)
             else None))"
| "parse_array 0 acc s = None"
| "parse_array (Suc n) acc s =
     (case parse_value n s of
        None \<Rightarrow> None
      | Some (v, rest) \<Rightarrow>
          (let r1 = skip_ws rest
           in if startswith r1 '']'' then Some (PList (acc @ [v]), tl r1)
              else if startswith r1 '','' then parse_array n (acc @ [v]) (skip_ws (tl r1))
              else None))"
| "parse_object 0 acc s = None"
| "parse_object (Suc n) acc s =
     (if \<not> startswith s [CHR 0x22] then None
      else
        (case parse_string (tl s) of
           None \<Rightarrow> None
         | Some (key, rest) \<Rightarrow>
             (let r1 = skip_ws rest
              in if \<not> startswith r1 '':'' then None
                 else
                   (case parse_value n (skip_ws (tl r1)) of
                      None \<Rightarrow> None
                    | Some (v, rest2) \<Rightarrow>
                        (let r2 = skip_ws rest2
                         in if startswith r2 ''}'' then Some (PDict (dict_set acc key v), tl r2)
                            else if startswith r2 '','' then
                              parse_object n (dict_set acc key v) (skip_ws (tl r2))
                            else None)))))"

text \<open>
  \<^verbatim>\<open>json.loads\<close>: one value between optional white space, and nothing after it;
  \<open>None\<close> stands for \<^verbatim>\<open>JSONDecodeError\<close>.
\<close>

definition json_loads :: "string \<Rightarrow> pyval option" where
  "json_loads s =
     (case parse_value (Suc (length s)) (skip_ws s) of
        None \<Rightarrow> None
      | Some (v, rest) \<Rightarrow> if skip_ws rest = [] then Some v else None)"
section \<open>The response normalizer (app/services/ai\_service.py, app/schemas.py)\<close>

subsection \<open>\<^verbatim>\<open>clean_ai_response\<close>\<close>

text \<open>
  The search \<^verbatim>\<open>re.search(r'```(?:json)?\s*(.*?)\s*```', cleaned_text, re.DOTALL)\<close>.
  A match starts at the first fence; after it the optional tag and the white space are
  taken greedily (giving them back cannot help: the characters given back are no back
  ticks), and the group is the shortest text followed by white space and a fence.
\<close>

definition fence :: string where
  "fence = [CHR 0x60, CHR 0x60, CHR 0x60]"

text \<open>The text after the first occurrence of \<open>sub\<close>, if there is one.\<close>

fun after_first :: "string \<Rightarrow> string \<Rightarrow> string option" where
  "after_first sub [] = (if sub = [] then Some [] else None)"
| "after_first sub (c # cs) =
     (if startswith (c # cs) sub then Some (drop (length sub) (c # cs))
      else after_first sub cs)"

text \<open>The group \<^verbatim>\<open>(.*?)\<close> before \<^verbatim>\<open>\s*```\<close>.\<close>

fun lazy_group :: "string \<Rightarrow> string option" where
  "lazy_group [] = None"
| "lazy_group (c # cs) =
     (if startswith (dropWhile is_space (c # cs)) fence then Some []
      else (case lazy_group cs of None \<Rightarrow> None | Some g \<Rightarrow> Some (c # g)))"

definition markdown_search :: "string \<Rightarrow> string option" where
  "markdown_search s =
     (case after_first fence s of
        None \<Rightarrow> None
      | Some a \<Rightarrow>
          lazy_group (dropWhile is_space (if startswith a ''json'' then drop 4 a else a)))"

definition clean_ai_response :: "string \<Rightarrow> string" where
  "clean_ai_response response_text =
     (let cleaned_text = strip response_text
      in case markdown_search cleaned_text of
           Some group1 \<Rightarrow> strip group1
         | None \<Rightarrow> cleaned_text)"

subsection \<open>The schema (\<^verbatim>\<open>InvoiceData\<close>, \<^verbatim>\<open>ExtractedItem\<close>)\<close>

record ExtractedItem =
  description :: string
  quantity :: pyfloat
  unit_price :: pyfloat
  total_price :: pyfloat

record InvoiceData =
  invoice_number :: string
  invoice_date :: "date option"
  due_date :: "date option"
  vendor_name :: string
  vendor_address :: "string option"
  customer_name :: "string option"
  customer_address :: "string option"
  subtotal :: pyfloat
  tax :: pyfloat
  total :: pyfloat
  currency :: string
  items :: "ExtractedItem list"

text \<open>
  \<^verbatim>\<open>ExtractionResponse\<close> declares the same fields with the same types and defaults as
  \<^verbatim>\<open>InvoiceData\<close>; the two classes are one record here, and the endpoint's copy of one
  into the other, field by field, is the identity.
\<close>

type_synonym ExtractionResponse = InvoiceData

text \<open>
  The validation of the fields, as the validation library does it in its default mode.  The
  argument of a field validator is the entry of the input dictionary, \<open>None\<close> for a missing
  key; its result is \<open>None\<close> for a validation error.

  A string field takes a string and nothing else.  A float field takes a float, an
  integer, a truth value, or a string that, trimmed, is a float literal.  An optional field
  also takes \<^verbatim>\<open>None\<close> and has the default \<^verbatim>\<open>None\<close>.  The library's conversion to a date is
  a parameter (\<open>to_date\<close>).
\<close>

definition float_of_str :: "string \<Rightarrow> pyfloat option" where
  "float_of_str s =
     (let t = strip s;
          neg = startswith t ''-'';
          u = (if startswith t ''-'' \<or> startswith t ''+'' then tl t else t);
          l = lower u;
          ip = takeWhile is_digit u;
          r1 = dropWhile is_digit u;
          dot = startswith r1 ''.'';
          fd = (if dot then takeWhile is_digit (tl r1) else []);
          r2 = (if dot then dropWhile is_digit (tl r1) else r1);
          has_e = (startswith r2 ''e'' \<or> startswith r2 ''E'');
          r3 = (if has_e then tl r2 else r2);
          eneg = startswith r3 ''-'';
          r4 = (if startswith r3 ''-'' \<or> startswith r3 ''+'' then tl r3 else r3);
          ed = takeWhile is_digit r4;
          sgn = (if neg then - 1 else 1)
      in if l = ''inf'' \<or> l = ''infinity'' then Some (if neg then NegInf else PosInf)
         else if l = ''nan'' then Some NaN
         else if ip = [] \<and> fd = [] then None
         else if \<not> has_e then
           (if r2 = [] then Some (norm_dec (sgn * digits_value (ip @ fd)) (- int (length fd)))
            else None)
         else if ed = [] \<or> dropWhile is_digit r4 \<noteq> [] then None
         else Some (norm_dec (sgn * digits_value (ip @ fd))
                             ((if eneg then - digits_value ed else digits_value ed)
                                - int (length fd))))"

fun validate_str :: "pyval option \<Rightarrow> string option" where
  "validate_str (Some (PStr s)) = Some s"
| "validate_str v = None"

fun validate_str_default :: "string \<Rightarrow> pyval option \<Rightarrow> string option" where
  "validate_str_default d None = Some d"
| "validate_str_default d v = validate_str v"

fun validate_optional_str :: "pyval option \<Rightarrow> string option option" where
  "validate_optional_str None = Some None"
| "validate_optional_str (Some PNone) = Some None"
| "validate_optional_str (Some (PStr s)) = Some (Some s)"
| "validate_optional_str v = None"

fun validate_optional_date :: "(pyval \<Rightarrow> date option) \<Rightarrow> pyval option \<Rightarrow> date option option" where
  "validate_optional_date to_date None = Some None"
| "validate_optional_date to_date (Some PNone) = Some None"
| "validate_optional_date to_date (Some v) =
     (case to_date v of None \<Rightarrow> None | Some d \<Rightarrow> Some (Some d))"

fun validate_float :: "pyval option \<Rightarrow> pyfloat option" where
  "validate_float (Some (PFloat f)) = Some f"
| "validate_float (Some (PInt i)) = Some (norm_dec i 0)"
| "validate_float (Some (PBool b)) = Some (Dec (if b then 1 else 0) 0)"
| "validate_float (Some (PStr s)) = float_of_str s"
| "validate_float v = None"

text \<open>A model is built from a dictionary; keys that are no fields are ignored.\<close>

fun ExtractedItem_validate :: "pyval \<Rightarrow> ExtractedItem option" where
  "ExtractedItem_validate (PDict d) =
     (case (validate_str (map_of d ''description''), validate_float (map_of d ''quantity''),
            validate_float (map_of d ''unit_price''), validate_float (map_of d ''total_price'')) of
        (Some de, Some q, Some u, Some t) \<Rightarrow>
          Some \<lparr> description = de, quantity = q, unit_price = u, total_price = t \<rparr>
      | _ \<Rightarrow> None)"
| "ExtractedItem_validate v = None"

fun validate_list :: "('a \<Rightarrow> 'b option) \<Rightarrow> 'a list \<Rightarrow> 'b list option" where
  "validate_list f [] = Some []"
| "validate_list f (x # xs) =
     (case (f x, validate_list f xs) of
        (Some y, Some ys) \<Rightarrow> Some (y # ys)
      | _ \<Rightarrow> None)"

fun validate_items :: "pyval option \<Rightarrow> ExtractedItem list option" where
  "validate_items None = Some []"
| "validate_items (Some (PList xs)) = validate_list ExtractedItem_validate xs"
| "validate_items v = None"

text \<open>
  \<^verbatim>\<open>InvoiceData(**extracted_data)\<close>.  Unpacking something that is no dictionary raises
  \<^verbatim>\<open>TypeError\<close>; a dictionary that fails the validation raises \<^verbatim>\<open>ValidationError\<close>, here
  with the names of the fields in error.
\<close>

definition error_if_none :: "string \<Rightarrow> 'a option \<Rightarrow> string list" where
  "error_if_none name v = (case v of None \<Rightarrow> [name] | Some x \<Rightarrow> [])"

definition InvoiceData_validate ::
  "(pyval \<Rightarrow> date option) \<Rightarrow> pyval \<Rightarrow> validation_error + InvoiceData" where
  "InvoiceData_validate to_date extracted_data =
     (case extracted_data of
        PDict d \<Rightarrow>
          (let f1 = validate_str (map_of d ''invoice_number'');
               f2 = validate_optional_date to_date (map_of d ''invoice_date'');
               f3 = validate_optional_date to_date (map_of d ''due_date'');
               f4 = validate_str (map_of d ''vendor_name'');
               f5 = validate_optional_str (map_of d ''vendor_address'');
               f6 = validate_optional_str (map_of d ''customer_name'');
               f7 = validate_optional_str (map_of d ''customer_address'');
               f8 = validate_float (map_of d ''subtotal'');
               f9 = validate_float (map_of d ''tax'');
               f10 = validate_float (map_of d ''total'');
               f11 = validate_str_default ''USD'' (map_of d ''currency'');
               f12 = validate_items (map_of d ''items'')
           in case (f1, f2, f3, f4, f5, f6, f7, f8, f9, f10, f11, f12) of
                (Some a1, Some a2, Some a3, Some a4, Some a5, Some a6, Some a7, Some a8,
                 Some a9, Some a10, Some a11, Some a12) \<Rightarrow>
                  Inr \<lparr> invoice_number = a1, invoice_date = a2, due_date = a3,
                        vendor_name = a4, vendor_address = a5, customer_name = a6,
                        customer_address = a7, subtotal = a8, tax = a9, total = a10,
                        currency = a11, items = a12 \<rparr>
              | _ \<Rightarrow>
                  Inl (FieldErrors
                    (error_if_none ''invoice_number'' f1 @ error_if_none ''invoice_date'' f2 @
                     error_if_none ''due_date'' f3 @ error_if_none ''vendor_name'' f4 @
                     error_if_none ''vendor_address'' f5 @ error_if_none ''customer_name'' f6 @
                     error_if_none ''customer_address'' f7 @ error_if_none ''subtotal'' f8 @
                     error_if_none ''tax'' f9 @ error_if_none ''total'' f10 @
                     error_if_none ''currency'' f11 @ error_if_none ''items'' f12)))
      | _ \<Rightarrow> Inl NotAMapping)"
section \<open>The prompt (app/prompts/invoice\_prompts.py)\<close>

fun join :: "string \<Rightarrow> string list \<Rightarrow> string" where
  "join sep [] = []"
| "join sep [x] = x"
| "join sep (x # y # ys) = x @ sep @ join sep (y # ys)"

text \<open>
  \<^verbatim>\<open>INVOICE_EXTRACTION_PROMPT\<close>, as the lines before the field \<^verbatim>\<open>{invoice_text}\<close> and the
  lines after the field \<^verbatim>\<open>{table_data}\<close>; the two fields are separated by an empty line.
\<close>

definition prompt_head_lines :: "string list" where
  "prompt_head_lines =
     ['''',
      ''You are an expert at extracting structured data from invoice text. '',
      ''Please extract the following information from the given invoice text and return it in JSON format:'',
      '''',
      ''- invoice_number: The invoice or document number'',
      ''- invoice_date: Date of the invoice (format: YYYY-MM-DD)'',
      ''- due_date: Payment due date (format: YYYY-MM-DD)  '',
      ''- vendor_name: Name of the vendor/supplier'',
      (''- vendor_address: Vendor'' @ [CHR 0x27] @ ''s address''),
      ''- customer_name: Customer name'',
      ''- customer_address: Customer address'',
      ''- subtotal: Subtotal amount (numeric)'',
      ''- tax: Tax amount (numeric)'',
      ''- total: Total amount (numeric)'',
      ''- currency: Currency code (e.g., USD, EUR)'',
      ''- items: Array of line items with description, quantity, unit_price, total_price'',
      '''',
      ''If any field is not found or unclear, return null for that field.'',
      '''',
      ''Invoice Text:'',
      '''']"

definition prompt_tail_lines :: "string list" where
  "prompt_tail_lines =
     ['''',
      '''',
      ''Response (valid JSON only):'',
      '''']"
text \<open>The decimal numeral of a natural number (\<^verbatim>\<open>str(i)\<close>).\<close>

fun str_nat :: "nat \<Rightarrow> string" where
  "str_nat n =
     (if n < 10 then [char_of (48 + n)]
      else str_nat (n div 10) @ [char_of (48 + n mod 10)])"

text \<open>
  The loop over \<^verbatim>\<open>enumerate(table_data["tables"])\<close>; each table is given by its text
  \<^verbatim>\<open>str(table)\<close>.
\<close>

fun table_lines :: "nat \<Rightarrow> string list \<Rightarrow> string" where
  "table_lines i [] = []"
| "table_lines i (table # tables) =
     ''Table '' @ str_nat (i + 1) @ '':'' @ [CHR 0x0A] @ table @ [CHR 0x0A]
       @ table_lines (i + 1) tables"

text \<open>
  \<^verbatim>\<open>PromptManager.get_extraction_prompt\<close>.  The optional \<^verbatim>\<open>table_data\<close> is given by the
  texts of the tables under its key \<^verbatim>\<open>"tables"\<close> (none when the key is missing).
\<close>

definition get_extraction_prompt :: "string \<Rightarrow> string list option \<Rightarrow> string" where
  "get_extraction_prompt invoice_text table_data =
     (let table_section =
        (case table_data of
           None \<Rightarrow> []
         | Some tables \<Rightarrow>
             if tables = [] then []
             else [CHR 0x0A] @ ''Table Data:'' @ [CHR 0x0A] @ table_lines 0 tables)
      in join [CHR 0x0A] prompt_head_lines @ invoice_text @ [CHR 0x0A, CHR 0x0A]
           @ table_section @ join [CHR 0x0A] prompt_tail_lines)"

section \<open>\<^verbatim>\<open>AIService.get_structured_data\<close>\<close>

record AIService =
  circuit_breaker :: CircuitBreaker

text \<open>\<^verbatim>\<open>AIService.__init__\<close>, with the configured API key as an argument.\<close>

definition AIService_init :: "string \<Rightarrow> exn + AIService" where
  "AIService_init google_api_key =
     (if google_api_key = [] then Inl (AiServiceError ''Google API key not configured'' None)
      else Inr \<lparr> circuit_breaker =
                   CircuitBreaker_init 5 60 (\<lambda>e. is_AiServiceError e \<or> is_Exception e) \<rparr>)"

text \<open>
  The last handlers of \<^verbatim>\<open>get_structured_data\<close>: a \<^verbatim>\<open>CircuitBreakerOpenError\<close> and an
  \<^verbatim>\<open>AiServiceError\<close> are raised again, any other exception is wrapped.
\<close>

definition reraise :: "exn \<Rightarrow> exn" where
  "reraise e =
     (if is_AiServiceError e then e
      else AiServiceError (''Unexpected error: '' @ py_str e) None)"

text \<open>
  What \<^verbatim>\<open>get_structured_data\<close> does with the text the guarded call returned: the spec's
  \<open>normalize\<close>.
\<close>

definition normalize :: "(pyval \<Rightarrow> date option) \<Rightarrow> string \<Rightarrow> exn + InvoiceData" where
  "normalize to_date response_text =
     (if response_text = [] \<or> strip response_text = [] then
        Inl (AiServiceError ''Empty response from AI service'' None)
      else
        (case json_loads (clean_ai_response response_text) of
           None \<Rightarrow>
             Inl (AiServiceError ''Failed to parse structured data from AI response''
                    (Some JSONParseDetail))
         | Some extracted_data \<Rightarrow>
             (case InvoiceData_validate to_date extracted_data of
                Inl validation_error \<Rightarrow>
                  Inl (AiServiceError ''AI response data failed validation''
                         (Some (ValidationDetail validation_error)))
              | Inr validated_data \<Rightarrow> Inr validated_data)))"

text \<open>
  \<^verbatim>\<open>get_structured_data\<close>.  The state is the service (its breaker) and the number of calls
  made to the AI collaborator; \<open>now\<close> and \<open>later\<close> are the clock readings of the breaker.
\<close>

definition get_structured_data ::
  "genai \<Rightarrow> (pyval \<Rightarrow> date option) \<Rightarrow> int \<Rightarrow> int \<Rightarrow> string \<Rightarrow> string list option
     \<Rightarrow> AIService \<times> nat \<Rightarrow> (exn + InvoiceData) \<times> AIService \<times> nat" where
  "get_structured_data gen to_date now later text table_data st =
     (case st of (svc, n) \<Rightarrow>
        if text = [] \<or> strip text = [] then
          (Inl (AiServiceError ''Empty or invalid invoice text provided'' None), svc, n)
        else
          (let prompt = get_extraction_prompt text table_data
           in case call (circuit_breaker svc) now later (call_gemini_api gen prompt) n of
                (Inl e, cb', n') \<Rightarrow> (Inl (reraise e), svc\<lparr>circuit_breaker := cb'\<rparr>, n')
              | (Inr response_text, cb', n') \<Rightarrow>
                  (case normalize to_date response_text of
                     Inl e \<Rightarrow> (Inl (reraise e), svc\<lparr>circuit_breaker := cb'\<rparr>, n')
                   | Inr validated_data \<Rightarrow>
                       (Inr validated_data, svc\<lparr>circuit_breaker := cb'\<rparr>, n'))))"

text \<open>A text wrapped in a fenced block tagged \<^verbatim>\<open>json\<close>.\<close>

definition fenced_json :: "string \<Rightarrow> string" where
  "fenced_json body = fence @ ''json'' @ [CHR 0x0A] @ body @ [CHR 0x0A] @ fence"

text \<open>
  The breaker lets a call through when it is not open, or when the time for a trial has
  come.
\<close>

definition admits :: "CircuitBreaker \<Rightarrow> int \<Rightarrow> bool" where
  "admits cb now = (state cb \<noteq> OPEN \<or> should_attempt_reset cb now)"

text \<open>
  A collaborator that always raises a transient error, and the service as
  \<^verbatim>\<open>AIService.__init__\<close> builds it.
\<close>

definition always_503 :: genai where
  "always_503 n prompt = Inl (PyException ''503 Service Unavailable'')"

definition fresh_service :: AIService where
  "fresh_service =
     \<lparr> circuit_breaker = CircuitBreaker_init 5 60 (\<lambda>e. is_AiServiceError e \<or> is_Exception e) \<rparr>"

section \<open>The result cache (app/services/cache\_service.py)\<close>

text \<open>
  The Redis server is outside the program.  It holds a text and a time to live for each
  key; \<open>connect_error\<close> is the exception a new connection's \<^verbatim>\<open>ping\<close> raises and
  \<open>command_error\<close> the exception a command raises (\<open>None\<close> when the server answers);
  \<open>setex_reply\<close> is the server's answer to \<^verbatim>\<open>SETEX\<close>.  Expiry is the server's business
  and is not modelled.
\<close>

record redis_server =
  data :: "string \<rightharpoonup> (int \<times> string)"
  connect_error :: "exn option"
  command_error :: "exn option"
  setex_reply :: bool

text \<open>
  \<^verbatim>\<open>_get_client\<close>.  The state of the service is whether \<^verbatim>\<open>_redis_client\<close> is set; it is set
  before the connection is tested, and stays set when the test fails.
\<close>

definition CacheService_get_client :: "redis_server \<Rightarrow> bool \<Rightarrow> (exn + unit) \<times> bool" where
  "CacheService_get_client server client =
     (if \<not> client then
        (case connect_error server of
           Some e \<Rightarrow> (Inl (CacheError (''Redis connection failed: '' @ py_str e)), True)
         | None \<Rightarrow> (Inr (), True))
      else (Inr (), client))"



text \<open>
  \<^verbatim>\<open>set\<close>.  The serialiser \<^verbatim>\<open>json.dumps\<close> is a parameter; it answers \<open>None\<close> where the
  library raises \<^verbatim>\<open>TypeError\<close> (a date, for one, is not serialisable).
\<close>

definition CacheService_set_try ::
  "(pyval \<Rightarrow> string option) \<Rightarrow> redis_server \<Rightarrow> bool \<Rightarrow> string \<Rightarrow> pyval
     \<Rightarrow> (exn + bool) \<times> bool \<times> redis_server" where
  "CacheService_set_try dumps server client key val =
     (case CacheService_get_client server client of
        (Inl e, client') \<Rightarrow> (Inl e, client', server)
      | (Inr u, client') \<Rightarrow>
          (case dumps val of
             None \<Rightarrow> (Inl (PyException ''TypeError''), client', server)
           | Some json_value \<Rightarrow>
               (case command_error server of
                  Some e \<Rightarrow> (Inl e, client', server)
                | None \<Rightarrow>
                    if setex_reply server then
                      (Inr True, client', server\<lparr>data := (data server)(key \<mapsto> (86400, json_value))\<rparr>)
                    else (Inr False, client', server))))"

definition CacheService_set ::
  "(pyval \<Rightarrow> string option) \<Rightarrow> redis_server \<Rightarrow> bool \<Rightarrow> string \<Rightarrow> pyval
     \<Rightarrow> (exn + bool) \<times> bool \<times> redis_server" where
  "CacheService_set dumps server client key val =
     (case CacheService_set_try dumps server client key val of
        (Inl e, client', server') \<Rightarrow> (Inr False, client', server')
      | (Inr b, client', server') \<Rightarrow> (Inr b, client', server'))"




section \<open>The OCR service (app/services/ocr\_service.py)\<close>

text \<open>
  \<^verbatim>\<open>OCRService.extract_text\<close> on the temporary file the endpoint wrote: the file exists, has
  the given suffix and name and holds the given bytes.  The text extraction of the PDF
  library and of the OCR engine (\<^verbatim>\<open>_extract_from_pdf_simple\<close>, \<^verbatim>\<open>_extract_from_image\<close>) are
  oracles on the bytes; the two flags say whether the libraries are available.
\<close>

record ocr_engine =
  PYMUPDF_AVAILABLE :: bool
  SURYA_AVAILABLE :: bool
  extract_from_pdf_simple :: "bytes \<Rightarrow> exn + string"
  extract_from_image :: "bytes \<Rightarrow> exn + string"

definition extract_text :: "ocr_engine \<Rightarrow> string \<Rightarrow> string \<Rightarrow> bytes \<Rightarrow> exn + string" where
  "extract_text engine name suffix file_bytes =
     (if lower suffix \<notin> set [''.pdf'', ''.png'', ''.jpg'', ''.jpeg''] then
        Inl (FileProcessingError (''Unsupported file format: '' @ suffix) None)
      else if lower suffix = ''.pdf'' then
        (if PYMUPDF_AVAILABLE engine then extract_from_pdf_simple engine file_bytes
         else Inr (''Mock extracted text from '' @ name))
      else
        (if SURYA_AVAILABLE engine then extract_from_image engine file_bytes
         else Inr (''Mock extracted text from '' @ name)))"

section \<open>The extraction endpoint (app/api/v1/endpoints.py, \<^verbatim>\<open>extract_invoice_text\<close>)\<close>

text \<open>The uploaded file: its declared content type, its name and its bytes.\<close>

record UploadFile =
  content_type :: "string option"
  filename :: "string option"
  file_bytes :: bytes

text \<open>
  What is outside the program and fixed during a request: the AI collaborator, the OCR
  engine, the libraries' date conversion and serialiser, the configured API key, the name
  of the temporary file and the readings of the clock.
\<close>

record env =
  env_gen :: genai
  env_ocr :: ocr_engine
  env_to_date :: "pyval \<Rightarrow> date option"
  env_dumps :: "pyval \<Rightarrow> string option"
  env_api_key :: string
  env_temp_name :: string
  env_now :: int
  env_later :: int

text \<open>
  The state of the process and of the services it talks to: the Redis server, whether the
  cache service holds a client, the lazily created AI service, and the numbers of calls made
  to the AI collaborator and to the OCR service.
\<close>

record world =
  redis :: redis_server
  redis_client :: bool
  ai_service :: "AIService option"
  ai_calls :: nat
  ocr_calls :: nat






text \<open>The suffix of the temporary file, chosen by the declared content type.\<close>

definition file_extension :: "UploadFile \<Rightarrow> string" where
  "file_extension file =
     (if content_type file = Some ''application/pdf'' then ''.pdf''
      else if content_type file = Some ''image/png'' then ''.png''
      else if content_type file \<in> {Some ''image/jpeg'', Some ''image/jpg''} then ''.jpg''
      else [])"

text \<open>\<^verbatim>\<open>model_dump()\<close> of a response: a dictionary; a date stays a date object.\<close>

definition item_dump :: "ExtractedItem \<Rightarrow> pyval" where
  "item_dump i =
     PDict [(''description'', PStr (description i)), (''quantity'', PFloat (quantity i)),
            (''unit_price'', PFloat (unit_price i)), (''total_price'', PFloat (total_price i))]"

definition opt_dump :: "('a \<Rightarrow> pyval) \<Rightarrow> 'a option \<Rightarrow> pyval" where
  "opt_dump f v = (case v of None \<Rightarrow> PNone | Some x \<Rightarrow> f x)"

definition model_dump :: "ExtractionResponse \<Rightarrow> pyval" where
  "model_dump r =
     PDict [(''invoice_number'', PStr (invoice_number r)),
            (''invoice_date'', opt_dump PDate (invoice_date r)),
            (''due_date'', opt_dump PDate (due_date r)),
            (''vendor_name'', PStr (vendor_name r)),
            (''vendor_address'', opt_dump PStr (vendor_address r)),
            (''customer_name'', opt_dump PStr (customer_name r)),
            (''customer_address'', opt_dump PStr (customer_address r)),
            (''subtotal'', PFloat (subtotal r)),
            (''tax'', PFloat (tax r)),
            (''total'', PFloat (total r)),
            (''currency'', PStr (currency r)),
            (''items'', PList (map item_dump (items r)))]"

text \<open>\<^verbatim>\<open>get_ai_service\<close>: the service is created on first use.\<close>

definition get_ai_service :: "env \<Rightarrow> world \<Rightarrow> (exn + AIService) \<times> world" where
  "get_ai_service ev w =
     (case ai_service w of
        Some svc \<Rightarrow> (Inr svc, w)
      | None \<Rightarrow>
          (case AIService_init (env_api_key ev) of
             Inl e \<Rightarrow> (Inl e, w)
           | Inr svc \<Rightarrow> (Inr svc, w\<lparr>ai_service := Some svc\<rparr>)))"

text \<open>
  The second \<^verbatim>\<open>try\<close> block of the endpoint, entered on a cache miss: the temporary file,
  the OCR service, the AI service, the cache write.  Its handlers raise the application's
  exceptions again and wrap any other exception in an \<^verbatim>\<open>OcrError\<close>.  The removal of the
  temporary file in \<^verbatim>\<open>finally\<close> changes no state of the model.
\<close>

fun is_app_error :: "exn \<Rightarrow> bool" where
  "is_app_error (InvalidFileTypeError t) = True"
| "is_app_error (FileProcessingError m d) = True"
| "is_app_error (OcrError m d) = True"
| "is_app_error (AiServiceError m d) = True"
| "is_app_error (CircuitBreakerOpenError n) = True"
| "is_app_error e = False"

definition process_reraise :: "exn \<Rightarrow> exn" where
  "process_reraise e =
     (if is_app_error e then e
      else OcrError ''Failed to process file'' (Some (Detail (py_str e))))"

definition process_file :: "env \<Rightarrow> UploadFile \<Rightarrow> string \<Rightarrow> world \<Rightarrow> (exn + ExtractionResponse) \<times> world" where
  "process_file ev file file_hash w =
     (let w1 = w\<lparr>ocr_calls := ocr_calls w + 1\<rparr>
      in case extract_text (env_ocr ev) (env_temp_name ev) (file_extension file) (file_bytes file) of
           Inl e \<Rightarrow> (Inl (process_reraise e), w1)
         | Inr extracted_text \<Rightarrow>
             (case get_ai_service ev w1 of
                (Inl e, w2) \<Rightarrow> (Inl (process_reraise e), w2)
              | (Inr svc, w2) \<Rightarrow>
                  (case get_structured_data (env_gen ev) (env_to_date ev) (env_now ev)
                          (env_later ev) extracted_text None (svc, ai_calls w2) of
                     (Inl e, svc', n') \<Rightarrow>
                       (Inl (process_reraise e), w2\<lparr>ai_service := Some svc', ai_calls := n'\<rparr>)
                   | (Inr structured_data, svc', n') \<Rightarrow>
                       (let w3 = w2\<lparr>ai_service := Some svc', ai_calls := n'\<rparr>;
                            response_data = structured_data
                        in case CacheService_set (env_dumps ev) (redis w3) (redis_client w3)
                                  file_hash (model_dump response_data) of
                             (Inl e, client', server') \<Rightarrow>
                               (Inl (process_reraise e),
                                w3\<lparr>redis := server', redis_client := client'\<rparr>)
                           | (Inr stored, client', server') \<Rightarrow>
                               (Inr response_data,
                                w3\<lparr>redis := server', redis_client := client'\<rparr>)))))"



subsection \<open>A request\<close>

text \<open>
  The scenario of the specification's examples: a PNG upload; an OCR service without its
  libraries, which answers with its placeholder text; an AI collaborator that answers with
  the example record in a fenced block; the process at its start.
\<close>

definition example_json :: string where
  \<open>example_json =
     ''{"invoice_number":"INV-1","vendor_name":"Acme","subtotal":10,"tax":1,"total":11,"currency":"USD","items":[]}''\<close>

definition example_record :: InvoiceData where
  "example_record =
     \<lparr> invoice_number = ''INV-1'', invoice_date = None, due_date = None,
       vendor_name = ''Acme'', vendor_address = None, customer_name = None,
       customer_address = None, subtotal = Dec 1 1, tax = Dec 1 0, total = Dec 11 0,
       currency = ''USD'', items = [] \<rparr>"

definition test_upload :: UploadFile where
  "test_upload =
     \<lparr> content_type = Some ''image/png'', filename = Some ''invoice.png'',
       file_bytes = [0x89, 0x50, 0x4E, 0x47] \<rparr>"

definition test_env :: env where
  "test_env =
     \<lparr> env_gen = (\<lambda>n prompt. Inr (fenced_json example_json)),
       env_ocr = \<lparr> PYMUPDF_AVAILABLE = False, SURYA_AVAILABLE = False,
                   extract_from_pdf_simple = (\<lambda>b. Inl (OcrError ''OCR processing failed'' None)),
                   extract_from_image = (\<lambda>b. Inl (OcrError ''OCR processing failed'' None)) \<rparr>,
       env_to_date = (\<lambda>v. None),
       env_dumps = (\<lambda>v. Some example_json),
       env_api_key = ''key'',
       env_temp_name = ''tmp0001.png'',
       env_now = 0,
       env_later = 1 \<rparr>"




section \<open>The JSON endpoint (\<^verbatim>\<open>extract_invoice_n8n\<close>, \<^verbatim>\<open>AIService.extract_invoice_data\<close>)\<close>
















subsection \<open>A request to the JSON endpoint\<close>






section \<open>Properties of the circuit breaker\<close>

lemma call_breaker_only_outcome:
  "fst (snd (call cb now later func s)) =
   fst (snd (call cb now later (\<lambda>u::unit. (map_sum id (\<lambda>_. ()) (fst (func s)), u)) ()))"
  by (cases "func s"; cases "fst (func s)")
     (auto simp: call_def split: sum.splits prod.splits)

lemma reachable_call_any:
  assumes "reachable cb" and "call cb now later func s = (r, cb', s')"
  shows "reachable cb'"
proof -
  let ?r = "map_sum id (\<lambda>_. ()) (fst (func s)) :: exn + unit"
  obtain r0 cb0 u0 where c: "call cb now later (\<lambda>u::unit. (?r, u)) () = (r0, cb0, u0)"
    by (metis prod_cases3)
  have "cb0 = cb'"
    using call_breaker_only_outcome [of cb now later func s] assms(2) c by simp
  with reachable_call [OF assms(1) c] show ?thesis by simp
qed

lemma breaker_inv_init: "breaker_inv (CircuitBreaker_init threshold tmo expected)"
  by (simp add: breaker_inv_def CircuitBreaker_init_def)

lemma breaker_inv_call:
  assumes "breaker_inv cb" and "call cb now later func s = (r, cb', s')"
  shows "breaker_inv cb'"
  using assms
  by (auto simp: call_def call_gate_def on_success_def on_failure_def breaker_inv_def Let_def
           split: sum.splits prod.splits if_splits)

lemma reachable_breaker_inv: "reachable cb \<Longrightarrow> breaker_inv cb"
  by (induction rule: reachable.induct) (auto intro: breaker_inv_init breaker_inv_call)

lemma reachable_run_calls: "reachable cb \<Longrightarrow> reachable (run_calls cb cs)"
proof (induction cs arbitrary: cb)
  case Nil
  then show ?case by simp
next
  case (Cons c cs)
  obtain now later r where c: "c = (now, later, r)" by (cases c) auto
  obtain r' cb' u' where s: "call cb now later (\<lambda>u::unit. (r, u)) () = (r', cb', u')"
    by (metis prod_cases3)
  from reachable_call [OF Cons.prems s] have "reachable cb'" .
  from Cons.IH [OF this] show ?case by (simp add: c s)
qed

lemma test_breaker_simps:
  "failure_threshold (test_breaker n t st) = 2" "timeout (test_breaker n t st) = 60"
  "expected_exception (test_breaker n t st) e" "failure_count (test_breaker n t st) = n"
  "last_failure_time (test_breaker n t st) = t" "state (test_breaker n t st) = st"
  "(test_breaker n t st)\<lparr>failure_count := n', last_failure_time := t', state := st'\<rparr>
     = test_breaker n' t' st'"
  "(test_breaker n t st)\<lparr>failure_count := n', state := st'\<rparr> = test_breaker n' t st'"
  "(test_breaker n t st)\<lparr>state := st'\<rparr> = test_breaker n t st'"
  "CircuitBreaker_init 2 60 is_Exception = test_breaker 0 None CLOSED"
  by (simp_all add: test_breaker_def is_Exception_def CircuitBreaker_init_def)

lemma test_breaker_reachable: "reachable (test_breaker 2 (Some 3) OPEN)"
proof -
  have "run_calls (CircuitBreaker_init 2 60 is_Exception)
          [(0, 1, Inl (PyException ''Test error'')), (2, 3, Inl (PyException ''Test error''))]
        = test_breaker 2 (Some 3) OPEN"
    by (simp add: CircuitBreaker_init_def call_def call_gate_def on_failure_def
                  is_Exception_def test_breaker_def)
  with reachable_run_calls [OF reachable_init] show ?thesis by metis
qed





text \<open>
  Claim C10.  In every state reachable from a fresh breaker by calls of any outcome,
  \<^verbatim>\<open>failure_count\<close> is not negative, and an open breaker has a time of last failure and a
  count of at least \<^verbatim>\<open>failure_threshold\<close>.  The gate keeps the count when it moves an open
  breaker to \<^verbatim>\<open>HALF_OPEN\<close>, so one more failure there opens the breaker again.
\<close>
theorem breaker_invariant:
  assumes "reachable cb"
  shows "0 \<le> failure_count cb \<and>
    (state cb = OPEN \<longrightarrow>
       last_failure_time cb \<noteq> None \<and> failure_threshold cb \<le> failure_count cb) \<and>
    (call_gate cb now = Inr cb1 \<longrightarrow>
       failure_count cb1 = failure_count cb \<and>
       (state cb = OPEN \<longrightarrow> state (on_failure cb1 later) = OPEN))"
  using reachable_breaker_inv [OF assms]
  by (auto simp: breaker_inv_def call_gate_def on_failure_def Let_def split: if_splits)

theorem breaker_invariant_witness:
  "reachable (test_breaker 2 (Some 3) OPEN) \<and>
   0 \<le> failure_count (test_breaker 2 (Some 3) OPEN) \<and>
   last_failure_time (test_breaker 2 (Some 3) OPEN) \<noteq> None \<and>
   failure_threshold (test_breaker 2 (Some 3) OPEN)
     \<le> failure_count (test_breaker 2 (Some 3) OPEN) \<and>
   call_gate (test_breaker 2 (Some 3) OPEN) 60000004 = Inr (test_breaker 2 (Some 3) HALF_OPEN) \<and>
   state (on_failure (test_breaker 2 (Some 3) HALF_OPEN) 60000005) = OPEN"
proof -
  have g: "call_gate (test_breaker 2 (Some 3) OPEN) 60000004
             = Inr (test_breaker 2 (Some 3) HALF_OPEN)"
    by (simp add: call_gate_def should_attempt_reset_def test_breaker_simps timedelta_seconds_def)
  from breaker_invariant [OF test_breaker_reachable, where now = 60000004
         and ?cb1.0 = "test_breaker 2 (Some 3) HALF_OPEN" and later = 60000005]
       g test_breaker_reachable
  show ?thesis by (simp add: test_breaker_simps)
qed

section \<open>Properties of the failure classifier and of the retries\<close>

lemma startswith_iff: "startswith s p \<longleftrightarrow> (\<exists>post. s = p @ post)"
  by (induction s p rule: startswith.induct) auto

lemma py_in_iff: "py_in sub s \<longleftrightarrow> (\<exists>pre post. s = pre @ sub @ post)"
proof (induction s)
  case Nil
  then show ?case by auto
next
  case (Cons c cs)
  show ?case
  proof
    assume "py_in sub (c # cs)"
    then consider "startswith (c # cs) sub" | "py_in sub cs" by auto
    then show "\<exists>pre post. c # cs = pre @ sub @ post"
    proof cases
      case 1
      then obtain post where "c # cs = sub @ post" by (auto simp: startswith_iff)
      then have "c # cs = [] @ sub @ post" by simp
      then show ?thesis by blast
    next
      case 2
      then obtain pre post where "cs = pre @ sub @ post" using Cons.IH by blast
      then have "c # cs = (c # pre) @ sub @ post" by simp
      then show ?thesis by blast
    qed
  next
    assume "\<exists>pre post. c # cs = pre @ sub @ post"
    then obtain pre post where e: "c # cs = pre @ sub @ post" by blast
    show "py_in sub (c # cs)"
    proof (cases pre)
      case Nil
      with e have "startswith (c # cs) sub" by (auto simp: startswith_iff)
      then show ?thesis by simp
    next
      case (Cons a pre')
      with e have "cs = pre' @ sub @ post" by simp
      then have "py_in sub cs" using Cons.IH by blast
      then show ?thesis by simp
    qed
  qed
qed

lemma contains_ci_iff: "contains_ci ind s \<longleftrightarrow> py_in (lower ind) (lower s)"
proof
  assume "contains_ci ind s"
  then obtain pre mid post where "s = pre @ mid @ post" "lower mid = lower ind"
    by (auto simp: contains_ci_def)
  then have "lower s = lower pre @ lower ind @ lower post" by (simp add: lower_def)
  then show "py_in (lower ind) (lower s)" unfolding py_in_iff by blast
next
  assume "py_in (lower ind) (lower s)"
  then obtain p q where "map lower_char s = p @ lower ind @ q"
    unfolding py_in_iff lower_def by blast
  then obtain pre rest where 1: "s = pre @ rest" "map lower_char rest = lower ind @ q"
    by (metis map_eq_append_conv)
  then obtain mid post where 2: "rest = mid @ post" "map lower_char mid = lower ind"
    by (metis map_eq_append_conv)
  from 1 2 have "s = pre @ mid @ post \<and> lower mid = lower ind" by (simp add: lower_def)
  then show "contains_ci ind s" unfolding contains_ci_def by blast
qed

lemma lower_indicators:
  "lower ''429'' = ''429''" "lower ''500'' = ''500''" "lower ''502'' = ''502''"
  "lower ''503'' = ''503''" "lower ''504'' = ''504''" "lower ''timeout'' = ''timeout''"
  "lower ''connection'' = ''connection''" "lower ''network'' = ''network''"
  "lower ''quota exceeded'' = ''quota exceeded''"
  by (simp_all add: lower_def lower_char_def)

text \<open>
  Claim C6.  \<^verbatim>\<open>_is_transient_error\<close> holds of an error exactly when its text contains,
  case-insensitively, one of the nine indicators; every other text is classified as
  permanent (the function returns \<^verbatim>\<open>False\<close>).
\<close>
theorem is_transient_error_iff:
  "is_transient_error e \<longleftrightarrow>
     (\<exists>ind \<in> set [''429'', ''500'', ''502'', ''503'', ''504'', ''timeout'', ''connection'',
                    ''network'', ''quota exceeded'']. contains_ci ind (py_str e))"
  unfolding is_transient_error_def transient_indicators_def Let_def contains_ci_iff
  by (simp add: lower_indicators del: py_in.simps) blast

theorem is_transient_error_iff_witness:
  "is_transient_error (PyException ''Network TimeOut'') \<and>
   contains_ci ''timeout'' ''Network TimeOut'' \<and>
   \<not> is_transient_error (PyException ''Invalid API key'')"
proof -
  have a: "is_transient_error (PyException ''Network TimeOut'')"
    by code_simp
  have b: "\<not> is_transient_error (PyException ''Invalid API key'')"
    by code_simp
  have "''Network TimeOut'' = ''Network '' @ ''TimeOut'' @ []" by simp
  moreover have "lower ''TimeOut'' = lower ''timeout''" by code_simp
  ultimately have c: "contains_ci ''timeout'' ''Network TimeOut''"
    unfolding contains_ci_def by blast
  from a b c is_transient_error_iff [of "PyException ''Network TimeOut''"] show ?thesis by simp
qed

lemma retry_result:
  "fn s = (Inr v, s') \<Longrightarrow> retry k fn s = (Inr v, s')"
  by (subst retry.simps) simp

lemma retry_last:
  "fn s = (Inl e, s') \<Longrightarrow> 3 \<le> k \<Longrightarrow> retry k fn s = (Inl e, s')"
  by (subst retry.simps) simp

lemma retry_other:
  "fn s = (Inl e, s') \<Longrightarrow> \<not> is_AiServiceError e \<Longrightarrow> retry k fn s = (Inl e, s')"
  by (subst retry.simps) simp

lemma retry_again:
  "fn s = (Inl e, s') \<Longrightarrow> is_AiServiceError e \<Longrightarrow> k < 3
     \<Longrightarrow> retry k fn s = retry (k + 1) fn s'"
  by (subst retry.simps) simp

lemma body_fails:
  assumes "attempt_fails gen prompt n"
  shows "\<exists>m. call_gemini_api_body gen prompt n = (Inl (AiServiceError m None), Suc n)"
  using assms
  by (auto simp: attempt_fails_def call_gemini_api_body_def Let_def split: sum.splits)

lemma body_succeeds:
  assumes "gen n prompt = Inr text" and "text \<noteq> []"
  shows "call_gemini_api_body gen prompt n = (Inr (strip text), Suc n)"
  using assms by (simp add: call_gemini_api_body_def)

lemma call_gemini_api_all_fail:
  assumes "attempt_fails gen prompt n" and "attempt_fails gen prompt (n + 1)"
    and "attempt_fails gen prompt (n + 2)"
  shows "\<exists>m. call_gemini_api gen prompt n = (Inl (AiServiceError m None), n + 3)"
proof -
  obtain m1 where 1: "call_gemini_api_body gen prompt n = (Inl (AiServiceError m1 None), Suc n)"
    using body_fails [OF assms(1)] by blast
  obtain m2 where 2: "call_gemini_api_body gen prompt (Suc n) = (Inl (AiServiceError m2 None), Suc (Suc n))"
    using body_fails [OF assms(2)] by auto
  obtain m3 where 3: "call_gemini_api_body gen prompt (Suc (Suc n)) = (Inl (AiServiceError m3 None), Suc (Suc (Suc n)))"
    using body_fails [OF assms(3)] by auto
  have "call_gemini_api gen prompt n = retry 2 (call_gemini_api_body gen prompt) (Suc n)"
    unfolding call_gemini_api_def using retry_again [of "call_gemini_api_body gen prompt" n _ "Suc n" 1] 1 by (simp add: numeral_2_eq_2 numeral_3_eq_3)
  also have "\<dots> = retry 3 (call_gemini_api_body gen prompt) (Suc (Suc n))"
    using retry_again [of "call_gemini_api_body gen prompt" "Suc n" _ "Suc (Suc n)" 2] 2 by (simp add: numeral_2_eq_2 numeral_3_eq_3)
  also have "\<dots> = (Inl (AiServiceError m3 None), Suc (Suc (Suc n)))"
    using retry_last [of "call_gemini_api_body gen prompt" "Suc (Suc n)" _ "Suc (Suc (Suc n))" 3] 3 by (simp add: numeral_2_eq_2 numeral_3_eq_3)
  finally show ?thesis by simp
qed

text \<open>
  Claim C2 (the code departs from it).  An error whose text has no transient indicator is
  wrapped in an \<^verbatim>\<open>AiServiceError\<close> like a transient one, and the retry decorator retries
  every \<^verbatim>\<open>AiServiceError\<close>: with a collaborator that always raises
  \<^verbatim>\<open>Exception("Invalid API key")\<close> the collaborator is called three times before the
  error reaches the caller.
\<close>
theorem permanent_error_is_retried:
  "\<not> is_transient_error (PyException ''Invalid API key'') \<and>
   call_gemini_api (\<lambda>n prompt. Inl (PyException ''Invalid API key'')) ''prompt'' 0 =
     (Inl (AiServiceError ''Permanent error from Gemini API: Invalid API key'' None), 3)"
  by code_simp

section \<open>Properties of the content fingerprint\<close>








section \<open>Properties of the response normalizer\<close>

text \<open>
  Claim C8.  On the text of the specification's example, wrapped in a fenced block tagged
  \<^verbatim>\<open>json\<close>, the normalizer returns a validated record with invoice number
  \<^verbatim>\<open>INV-1\<close> and total 11.  On the same text with the string \<^verbatim>\<open>"not-a-number"\<close> as
  total it fails with the validation failure of the schema, naming the field \<^verbatim>\<open>total\<close>;
  the value is not coerced.
\<close>

theorem normalize_round_trip:
  \<open>(\<exists>r. normalize to_date
          (fenced_json ''{"invoice_number":"INV-1","vendor_name":"Acme","subtotal":10,"tax":1,"total":11,"currency":"USD","items":[]}'')
        = Inr r \<and> invoice_number r = ''INV-1'' \<and> total r = Dec 11 0) \<and>
   normalize to_date
     (fenced_json ''{"invoice_number":"INV-1","vendor_name":"Acme","subtotal":10,"tax":1,"total":"not-a-number","currency":"USD","items":[]}'')
     = Inl (AiServiceError ''AI response data failed validation''
              (Some (ValidationDetail (FieldErrors [''total'']))))\<close>
proof -
  have 1: \<open>normalize to_date
          (fenced_json ''{"invoice_number":"INV-1","vendor_name":"Acme","subtotal":10,"tax":1,"total":11,"currency":"USD","items":[]}'')
        = Inr \<lparr> invoice_number = ''INV-1'', invoice_date = None, due_date = None,
                vendor_name = ''Acme'', vendor_address = None, customer_name = None,
                customer_address = None, subtotal = Dec 1 1, tax = Dec 1 0, total = Dec 11 0,
                currency = ''USD'', items = [] \<rparr>\<close>
    by code_simp
  have 2: \<open>normalize to_date
     (fenced_json ''{"invoice_number":"INV-1","vendor_name":"Acme","subtotal":10,"tax":1,"total":"not-a-number","currency":"USD","items":[]}'')
     = Inl (AiServiceError ''AI response data failed validation''
              (Some (ValidationDetail (FieldErrors [''total'']))))\<close>
    by code_simp
  from 1 2 show ?thesis by simp
qed

section \<open>Properties of the guarded, retried call\<close>

lemma call_failure_counts_once:
  assumes "admits cb now" and "func s = (Inl e, s')" and "expected_exception cb e"
  shows "\<exists>cb'. call cb now later func s = (Inl e, cb', s') \<and>
           failure_count cb' = failure_count cb + 1"
  using assms
  by (auto simp: admits_def call_def call_gate_def on_failure_def Let_def)

text \<open>
  Claim C5.  The breaker wraps the whole retried call: in a request with a non-blank text
  that the breaker lets through, when the AI collaborator fails on each of the three
  attempts, the collaborator has been called three times and the breaker's
  \<^verbatim>\<open>failure_count\<close> has grown by exactly one.
\<close>

theorem breaker_counts_request_once:
  assumes "strip text \<noteq> []"
    and "admits (circuit_breaker svc) now"
    and "expected_exception (circuit_breaker svc) = (\<lambda>e. is_AiServiceError e \<or> is_Exception e)"
    and "attempt_fails gen (get_extraction_prompt text table_data) n"
    and "attempt_fails gen (get_extraction_prompt text table_data) (n + 1)"
    and "attempt_fails gen (get_extraction_prompt text table_data) (n + 2)"
  shows "\<exists>e svc'. get_structured_data gen to_date now later text table_data (svc, n)
                     = (Inl e, svc', n + 3) \<and>
           failure_count (circuit_breaker svc') = failure_count (circuit_breaker svc) + 1"
proof -
  let ?p = "get_extraction_prompt text table_data"
  obtain m where m: "call_gemini_api gen ?p n = (Inl (AiServiceError m None), n + 3)"
    using call_gemini_api_all_fail [OF assms(4-6)] by blast
  have "expected_exception (circuit_breaker svc) (AiServiceError m None)"
    by (simp add: assms(3))
  from call_failure_counts_once [where func = "call_gemini_api gen ?p" and later = later, OF assms(2) m this]
  obtain cb' where c: "call (circuit_breaker svc) now later (call_gemini_api gen ?p) n
        = (Inl (AiServiceError m None), cb', n + 3)"
    and f: "failure_count cb' = failure_count (circuit_breaker svc) + 1"
    by blast
  from assms(1) have "text \<noteq> []" by (auto simp: strip_def)
  with assms(1) c have "get_structured_data gen to_date now later text table_data (svc, n)
      = (Inl (reraise (AiServiceError m None)), svc\<lparr>circuit_breaker := cb'\<rparr>, n + 3)"
    by (simp add: get_structured_data_def)
  with f show ?thesis by simp
qed

theorem breaker_counts_request_once_witness:
  "AIService_init ''key'' = Inr fresh_service \<and>
   failure_count (circuit_breaker fresh_service) = 0 \<and>
   (\<exists>e svc'. get_structured_data always_503 (\<lambda>v. None) 0 1 ''Invoice #1 Total $9.99'' None
                (fresh_service, 0) = (Inl e, svc', 3) \<and>
              failure_count (circuit_breaker svc') = 1)"
proof -
  have 1: "strip ''Invoice #1 Total $9.99'' \<noteq> []" by code_simp
  have 2: "admits (circuit_breaker fresh_service) 0"
    by (simp add: admits_def fresh_service_def CircuitBreaker_init_def)
  have 3: "expected_exception (circuit_breaker fresh_service)
             = (\<lambda>e. is_AiServiceError e \<or> is_Exception e)"
    by (simp add: fresh_service_def CircuitBreaker_init_def)
  have 4: "attempt_fails always_503 p k" for p k
    by (simp add: attempt_fails_def always_503_def)
  have 5: "AIService_init ''key'' = Inr fresh_service"
    by (simp add: AIService_init_def fresh_service_def)
  have 6: "failure_count (circuit_breaker fresh_service) = 0"
    by (simp add: fresh_service_def CircuitBreaker_init_def)
  from breaker_counts_request_once [OF 1 2 3 4 4 4, where n = 0 and to_date = "\<lambda>v. None" and later = 1 and table_data = None] 5 6
  show ?thesis by simp
qed

section \<open>Properties of the result cache\<close>


lemma set_returns: "\<exists>b c s. CacheService_set dumps server client key val = (Inr b, c, s)"
  by (cases "CacheService_set_try dumps server client key val";
      cases "fst (CacheService_set_try dumps server client key val)")
     (auto simp: CacheService_set_def)










section \<open>Properties of the extraction endpoint\<close>


lemma get_ai_service_world:
  "get_ai_service ev w = (r, w') \<Longrightarrow>
     ai_calls w' = ai_calls w \<and> ocr_calls w' = ocr_calls w \<and> redis w' = redis w \<and>
     redis_client w' = redis_client w"
  by (auto simp: get_ai_service_def split: option.splits sum.splits)

lemma get_ai_service_fst:
  "fst (get_ai_service ev (w\<lparr>redis_client := c\<rparr>)) = fst (get_ai_service ev w)"
  "fst (get_ai_service ev (w\<lparr>ocr_calls := k\<rparr>)) = fst (get_ai_service ev w)"
  by (auto simp: get_ai_service_def split: option.splits sum.splits)



lemma process_file_result:
  assumes "extract_text (env_ocr ev) (env_temp_name ev) (file_extension file) (file_bytes file)
             = Inr tx"
    and "fst (get_ai_service ev w) = Inr svc"
    and "get_structured_data (env_gen ev) (env_to_date ev) (env_now ev) (env_later ev)
           tx None (svc, ai_calls w) = (Inr d, svc', n')"
  shows "fst (process_file ev file h w) = Inr d \<and> ai_calls (snd (process_file ev file h w)) = n'"
proof -
  let ?w1 = "w\<lparr>ocr_calls := ocr_calls w + 1\<rparr>"
  obtain r w2 where g: "get_ai_service ev ?w1 = (r, w2)" by (cases "get_ai_service ev ?w1")
  from g assms(2) have r: "r = Inr svc"
    using get_ai_service_fst(2) [where ev = ev and w = w and k = "ocr_calls w + 1"] by simp
  from get_ai_service_world [OF g] have a: "ai_calls w2 = ai_calls w" by simp
  have s: "get_structured_data (env_gen ev) (env_to_date ev) (env_now ev)
      (env_later ev) tx None (svc, ai_calls w2) = (Inr d, svc', n')"
    using assms(3) a by simp
  obtain b c4 s4 where c: "CacheService_set (env_dumps ev) (redis w2) (redis_client w2) h
      (model_dump d) = (Inr b, c4, s4)"
    using set_returns by blast
  from assms(1) g r s c show ?thesis by (simp add: process_file_def Let_def)
qed





lemma test_extract_text:
  "extract_text (env_ocr test_env) (env_temp_name test_env) (file_extension test_upload)
     (file_bytes test_upload) = Inr ''Mock extracted text from tmp0001.png''"
  by code_simp

lemma test_get_ai_service:
  "ai_service w = None \<Longrightarrow> fst (get_ai_service test_env w) = Inr fresh_service"
  by (simp add: get_ai_service_def AIService_init_def test_env_def fresh_service_def)

lemma test_get_structured_data:
  "fst (get_structured_data (env_gen test_env) (env_to_date test_env) (env_now test_env)
     (env_later test_env) ''Mock extracted text from tmp0001.png'' None (fresh_service, 0))
   = Inr example_record"
  "snd (snd (get_structured_data (env_gen test_env) (env_to_date test_env) (env_now test_env)
     (env_later test_env) ''Mock extracted text from tmp0001.png'' None (fresh_service, 0)))
   = 1"
  by code_simp+

lemma test_miss_path:
  assumes "ai_service w = None" and "ai_calls w = 0"
  shows "fst (process_file test_env test_upload h w) = Inr example_record \<and>
         ai_calls (snd (process_file test_env test_upload h w)) = 1"
proof -
  obtain r svc' n' where g: "get_structured_data (env_gen test_env) (env_to_date test_env)
      (env_now test_env) (env_later test_env) ''Mock extracted text from tmp0001.png'' None
      (fresh_service, 0) = (r, svc', n')"
    by (metis prod_cases3)
  with test_get_structured_data have "r = Inr example_record" and "n' = 1" by simp_all
  with g assms(2) have "get_structured_data (env_gen test_env) (env_to_date test_env)
      (env_now test_env) (env_later test_env) ''Mock extracted text from tmp0001.png'' None
      (fresh_service, ai_calls w) = (Inr example_record, svc', 1)"
    by simp
  from process_file_result [OF test_extract_text test_get_ai_service [OF assms(1)] this]
  show ?thesis .
qed





subsection \<open>The JSON endpoint writes an empty dictionary\<close>











end
